theory Spec2Isabelle
  imports Main
begin

section \<open>The waypoint editor: the component App and Dropdown.jsx\<close>

text \<open>
  The component \<open>App\<close> keeps an ordered list of waypoints in React state, attaches
  OpenLayers \<open>Draw\<close> interactions to a map and turns the coordinates of a finished
  gesture into waypoints, either appended to the list or spliced into it.
  The embedding follows the source function by function:
  \<^item> React state (\<open>useState\<close>) and the ref \<open>drawRef\<close> are the fields of the record
    \<open>app\<close>; a handler reads the fields of the state it was rendered with and returns
    the state after its updates;
  \<^item> a \<open>Draw\<close> interaction is a record that carries what the closure of its
    \<open>drawend\<close> listener captured when \<open>addDrawingInteraction\<close> ran;
  \<^item> the map's interaction collection is a list of such records;
  \<^item> a JavaScript exception is the constructor \<open>Thrown\<close> of the result type, holding
    the state the handler left behind.
\<close>

subsection \<open>Waypoints and their labels\<close>

text \<open>
  A waypoint is the object literal \<open>{ wp: ..., coordinates: c }\<close> built in both handlers.
  The type \<open>'c\<close> is whatever one element of \<open>getCoordinates()\<close> is (a position for a
  line string, a ring for a polygon); the code never looks inside it.
\<close>

record 'c waypoint =
  wp :: string
  coordinates :: 'c

definition digit_char :: "nat \<Rightarrow> char" where
  "digit_char d = ''0123456789'' ! d"

text \<open>\<open>index.toString()\<close> for an array index: its decimal digits.\<close>

fun toString :: "nat \<Rightarrow> string" where
  "toString n = (if n < 10 then [digit_char n] else toString (n div 10) @ [digit_char (n mod 10)])"

declare toString.simps [simp del]

text \<open>\<open>s.padStart(targetLength, c)\<close> with a one-character pad string.\<close>

definition padStart :: "nat \<Rightarrow> char \<Rightarrow> string \<Rightarrow> string" where
  "padStart targetLength c s = replicate (targetLength - length s) c @ s"

text \<open>The template literal \<open>`WP(${index.toString().padStart(2, '0')})`\<close>.\<close>

definition wp_label :: "nat \<Rightarrow> string" where
  "wp_label index = ''WP('' @ padStart 2 (CHR ''0'') (toString index) @ '')''"

text \<open>
  \<open>coords.map((c, index) => ({ wp: ..., coordinates: c }))\<close>, written identically in the
  \<open>drawend\<close> listener and in \<open>handleKeyDown\<close>.
\<close>

definition formattedCoords :: "'c list \<Rightarrow> 'c waypoint list" where
  "formattedCoords coords =
     map (\<lambda>(index, c). \<lparr>wp = wp_label index, coordinates = c\<rparr>) (enumerate 0 coords)"

subsection \<open>JavaScript primitives the handlers rely on\<close>

text \<open>
  \<open>Array.prototype.splice(start, deleteCount, ...items)\<close> on integers, after ECMAScript:
  a negative start counts from the end, a start past the end is the length, and the
  number of deleted elements is cut to what is there. The result is the array afterwards.
\<close>

definition array_splice :: "int \<Rightarrow> int \<Rightarrow> 'a list \<Rightarrow> 'a list \<Rightarrow> 'a list" where
  "array_splice start deleteCount items xs =
     (let len = int (length xs);
          actualStart = (if start < 0 then max (len + start) 0 else min start len);
          actualDeleteCount = min (max deleteCount 0) (len - actualStart)
      in take (nat actualStart) xs @ items @ drop (nat (actualStart + actualDeleteCount)) xs)"

text \<open>
  The state \<open>selectedWaypoint\<close> is \<open>null\<close> or an index that \<open>waypoints.map\<close> passed to
  its callback, the only argument \<open>setSelectedWaypoint\<close> is ever called with: a natural
  number. Both \<open>splice(null, ...)\<close> and \<open>null + 1\<close> convert \<open>null\<close> to the number 0.
\<close>

definition toNumber :: "nat option \<Rightarrow> int" where
  "toNumber v = (case v of None \<Rightarrow> 0 | Some n \<Rightarrow> int n)"

subsection \<open>Draw interactions and the state of the component\<close>

datatype geometry = LineString | Polygon

text \<open>
  One \<open>new Draw({ type })\<close> together with the closure of the listener that
  \<open>addDrawingInteraction\<close> registers on it: the arguments \<open>type\<close> and \<open>insertPosition\<close>
  and the constants \<open>waypoints\<close> and \<open>selectedWaypoint\<close> of the render whose
  \<open>addDrawingInteraction\<close> was called. \<open>uid\<close> stands for the identity of the object.
\<close>

record 'c draw =
  uid :: nat
  draw_type :: geometry
  insertPosition :: "string option"
  seen_waypoints :: "'c waypoint list"
  seen_selectedWaypoint :: "nat option"

text \<open>
  The state hooks of \<open>App\<close> (\<open>map\<close> only as set or not), the ref \<open>drawRef\<close>, and the
  Draw interactions this component has added to the map and not removed.
  \<open>draws_created\<close> numbers the Draw objects. The modal flag and the view are
  presentation and are left out.
\<close>

record 'c app =
  map_set :: bool
  drawingMode :: "geometry option"
  waypoints :: "'c waypoint list"
  drawType :: "geometry option"
  selectedWaypoint :: "nat option"
  drawRef :: "'c draw option"
  interactions :: "'c draw list"
  draws_created :: nat

definition initial :: "'c app" where
  "initial = \<lparr>map_set = False, drawingMode = None, waypoints = [], drawType = None,
     selectedWaypoint = None, drawRef = None, interactions = [], draws_created = 0\<rparr>"

text \<open>The mount effect: \<open>setMap(initialMap)\<close>.\<close>

definition mount :: "'c app \<Rightarrow> 'c app" where
  "mount st = st\<lparr>map_set := True\<rparr>"

datatype js_error = TypeError

datatype 'c result = Returned "'c app" | Thrown js_error "'c app"

fun state_of :: "'c result \<Rightarrow> 'c app" where
  "state_of (Returned st) = st"
| "state_of (Thrown e st) = st"

subsection \<open>addDrawingInteraction\<close>

text \<open>
  Lines 46 to 79. Without a map the function returns at once. Otherwise it creates a Draw,
  stores it in \<open>drawRef.current\<close>, registers the listener (whose closure sees the
  \<open>waypoints\<close> and \<open>selectedWaypoint\<close> of the state \<open>st\<close> it is called in), adds the
  Draw to the map and sets \<open>drawingMode\<close>. An interaction that is already on the map
  is left there.
\<close>

definition new_draw :: "geometry \<Rightarrow> string option \<Rightarrow> 'c app \<Rightarrow> 'c draw" where
  "new_draw type' insertPos st =
     \<lparr>uid = draws_created st, draw_type = type', insertPosition = insertPos,
      seen_waypoints = waypoints st, seen_selectedWaypoint = selectedWaypoint st\<rparr>"

definition addDrawingInteraction :: "geometry \<Rightarrow> string option \<Rightarrow> 'c app \<Rightarrow> 'c app" where
  "addDrawingInteraction type' insertPos st =
     (if \<not> map_set st then st
      else st\<lparr>drawRef := Some (new_draw type' insertPos st),
              interactions := interactions st @ [new_draw type' insertPos st],
              drawingMode := Some type',
              draws_created := Suc (draws_created st)\<rparr>)"

subsection \<open>The drawend listener\<close>

text \<open>
  Lines 55 to 75, for the Draw \<open>d\<close> in the state \<open>st\<close> at the time the gesture ends.
  The insert branch copies the \<open>waypoints\<close> of the closure, splices into the copy and
  stores the copy; the other branch uses the functional update on the current list.
  Neither branch removes the Draw from the map or clears \<open>drawRef\<close>.
\<close>

definition drawend :: "'c draw \<Rightarrow> 'c list \<Rightarrow> 'c app \<Rightarrow> 'c app" where
  "drawend d coords st =
     (let st' =
        (case insertPosition d of
           Some position \<Rightarrow>
             st\<lparr>waypoints :=
               (if position = ''before'' then
                  array_splice (toNumber (seen_selectedWaypoint d)) 0
                    (formattedCoords coords) (seen_waypoints d)
                else if position = ''after'' then
                  array_splice (toNumber (seen_selectedWaypoint d) + 1) 0
                    (formattedCoords coords) (seen_waypoints d)
                else seen_waypoints d)\<rparr>
         | None \<Rightarrow> st\<lparr>waypoints := waypoints st @ formattedCoords coords\<rparr>)
      in st'\<lparr>drawingMode := None, drawType := Some (draw_type d)\<rparr>)"

text \<open>
  The gesture backend calls the listener of a Draw only while that Draw is on the map.
\<close>

definition fire_drawend :: "'c draw \<Rightarrow> 'c list \<Rightarrow> 'c app \<Rightarrow> 'c app" where
  "fire_drawend d coords st = (if d \<in> set (interactions st) then drawend d coords st else st)"

subsection \<open>handleKeyDown\<close>

text \<open>
  Line 99 calls \<open>map.removeInteraction(draw)\<close> before line 100 reads
  \<open>draw.getOverlay().getSource().getFeatures()\<close>. A Draw that is taken off its map aborts
  its sketch and clears the source of its overlay, so whatever features the overlay held
  when the key was pressed, the source is empty when it is read.
\<close>

definition overlay_after_removal :: "'c list list \<Rightarrow> 'c list list" where
  "overlay_after_removal features = []"

text \<open>
  Lines 95 to 111. \<open>features\<close> is what the overlay of the current Draw holds when the key
  is pressed, each feature given by the coordinates of its geometry. Reading
  \<open>getFeatures()[0]\<close> of an empty array gives \<open>undefined\<close>, and calling \<open>getGeometry\<close>
  on it throws, after the interaction has been removed and before \<open>setWaypoints\<close>,
  \<open>setDrawingMode(null)\<close> and \<open>drawRef.current = null\<close>; \<open>map.removeInteraction\<close> throws
  as well when there is no map. The branch for a first feature is the rest of the source
  text; with the overlay cleared it is never taken.
\<close>

definition handleKeyDown :: "string \<Rightarrow> 'c list list \<Rightarrow> 'c app \<Rightarrow> 'c result" where
  "handleKeyDown key features st =
     (if key = ''Enter'' \<and> drawingMode st \<noteq> None then
        (case drawRef st of
           Some d \<Rightarrow>
             (if \<not> map_set st then Thrown TypeError st
              else
                (let st1 = st\<lparr>interactions := remove1 d (interactions st)\<rparr> in
                 case overlay_after_removal features of
                   [] \<Rightarrow> Thrown TypeError st1
                 | coords # _ \<Rightarrow>
                     Returned (st1\<lparr>waypoints := waypoints st1 @ formattedCoords coords,
                                   drawingMode := None, drawRef := None\<rparr>)))
         | None \<Rightarrow> Returned (st\<lparr>drawingMode := None, drawRef := None\<rparr>))
      else Returned st)"

subsection \<open>The waypoint list and the Dropdown\<close>

text \<open>
  Lines 183 to 193: each list item shows the stored \<open>point.wp\<close> and the coordinates.
\<close>

definition displayed :: "'c waypoint list \<Rightarrow> (string \<times> 'c) list" where
  "displayed ws = map (\<lambda>point. (wp point, coordinates point)) ws"

text \<open>The two menu items of Dropdown.jsx call \<open>handleSelect\<close> with these strings.\<close>

definition menu_positions :: "string list" where
  "menu_positions = [''before'', ''after'']"

text \<open>
  The \<open>onSelect\<close> of the item at \<open>index\<close>: \<open>setSelectedWaypoint(index)\<close>, then
  \<open>addDrawingInteraction('Polygon', position)\<close>. The setter only schedules the update:
  the function called next belongs to the same render and still reads the
  \<open>selectedWaypoint\<close> of \<open>st\<close>; the new index is in the state afterwards.
\<close>

definition onSelect :: "nat \<Rightarrow> string \<Rightarrow> 'c app \<Rightarrow> 'c app" where
  "onSelect index position st =
     (addDrawingInteraction Polygon (Some position) st)\<lparr>selectedWaypoint := Some index\<rparr>"

text \<open>
  \<open>drawingMode\<close> is only ever set by \<open>addDrawingInteraction\<close> after its test of
  \<open>map\<close>: a state in which a drawing mode is set has a map.
\<close>

definition mode_has_map :: "'c app \<Rightarrow> bool" where
  "mode_has_map st = (drawingMode st = None \<or> map_set st)"

subsection \<open>Concrete runs\<close>

text \<open>
  The first end-to-end scenario: the component is mounted, the LineString button starts a
  Draw, and the gesture ends with three positions. \<open>line_draw\<close> is that Draw.
\<close>

definition line_draw :: "(int \<times> int) draw" where
  "line_draw = new_draw LineString None (mount initial)"

definition begun :: "(int \<times> int) app" where
  "begun = addDrawingInteraction LineString None (mount initial)"

definition route3 :: "(int \<times> int) app" where
  "route3 = fire_drawend line_draw [(0, 0), (1, 1), (2, 2)] begun"

text \<open>
  The second scenario continues from there: the user opens the Dropdown of the list item
  at index 1 and picks \<open>before\<close>. \<open>insert_draw\<close> is the Draw this creates and
  \<open>inserting\<close> the state with that Draw on the map.
\<close>

definition insert_draw :: "(int \<times> int) draw" where
  "insert_draw = new_draw Polygon (Some ''before'') route3"

definition inserting :: "(int \<times> int) app" where
  "inserting = onSelect 1 ''before'' route3"

definition inserted :: "(int \<times> int) app" where
  "inserted = fire_drawend insert_draw [(9, 9), (8, 8)] inserting"

text \<open>
  From \<open>inserting\<close>, where index 1 is the selected one, the user opens the Dropdown of the
  item at index 2 and picks \<open>after\<close>: \<open>after_draw\<close> is the Draw this creates and
  \<open>inserting_after\<close> the state with that Draw on the map.
\<close>

definition after_draw :: "(int \<times> int) draw" where
  "after_draw = new_draw Polygon (Some ''after'') inserting"

definition inserting_after :: "(int \<times> int) app" where
  "inserting_after = onSelect 2 ''after'' inserting"

text \<open>
  Two buttons pressed one after the other on the mounted component, with no gesture
  finished in between.
\<close>

definition first_draw :: "(int \<times> int) draw" where
  "first_draw = new_draw LineString None (mount initial)"

definition begun_twice :: "(int \<times> int) app" where
  "begun_twice =
     addDrawingInteraction Polygon None (addDrawingInteraction LineString None (mount initial))"







section \<open>Basic facts\<close>

lemmas model_defs =
  fire_drawend_def drawend_def new_draw_def mount_def initial_def addDrawingInteraction_def
  onSelect_def handleKeyDown_def overlay_after_removal_def formattedCoords_def wp_label_def padStart_def toString.simps
  digit_char_def array_splice_def toNumber_def displayed_def

lemma menu_positions_iff:
  "position \<in> set menu_positions \<longleftrightarrow> position = ''before'' \<or> position = ''after''"
  by (auto simp add: menu_positions_def)

lemma mode_has_map_initial: "mode_has_map initial"
  by (simp add: mode_has_map_def initial_def)

lemma mode_has_map_preserved:
  assumes "mode_has_map st"
  shows "mode_has_map (mount st)"
    and "mode_has_map (addDrawingInteraction ty pos st)"
    and "mode_has_map (onSelect index position st)"
    and "mode_has_map (fire_drawend d cs st)"
    and "mode_has_map (state_of (handleKeyDown key fs st))"
proof -
  show "mode_has_map (mount st)"
    using assms by (auto simp add: mode_has_map_def mount_def)
  show "mode_has_map (addDrawingInteraction ty pos st)"
    using assms by (auto simp add: mode_has_map_def addDrawingInteraction_def)
  show "mode_has_map (onSelect index position st)"
    using assms by (auto simp add: mode_has_map_def onSelect_def addDrawingInteraction_def)
  show "mode_has_map (fire_drawend d cs st)"
    using assms
    by (auto simp add: mode_has_map_def fire_drawend_def drawend_def Let_def split: option.split)
  show "mode_has_map (state_of (handleKeyDown key fs st))"
    using assms
    by (auto simp add: mode_has_map_def handleKeyDown_def Let_def split: option.split list.split)
qed

text \<open>
  What the listener registered by \<open>onSelect\<close> holds: the selection of the state the
  Dropdown was rendered in, while the index just chosen is in the state afterwards.
\<close>

lemma onSelect_closure:
  assumes "map_set st"
  shows "drawRef (onSelect index position st) = Some (new_draw Polygon (Some position) st)"
    and "seen_selectedWaypoint (new_draw Polygon (Some position) st) = selectedWaypoint st"
    and "seen_waypoints (new_draw Polygon (Some position) st) = waypoints st"
    and "selectedWaypoint (onSelect index position st) = Some index"
  using assms by (simp_all add: onSelect_def addDrawingInteraction_def new_draw_def)

lemma length_formattedCoords [simp]: "length (formattedCoords cs) = length cs"
  by (simp add: formattedCoords_def)

lemma displayed_formattedCoords:
  "displayed (formattedCoords cs) = zip (map wp_label [0..<length cs]) cs"
  by (simp add: displayed_def formattedCoords_def enumerate_eq_zip zip_map1 split_def)

lemma coordinates_formattedCoords: "map coordinates (formattedCoords cs) = cs"
  by (simp add: formattedCoords_def split_def comp_def)

lemma array_splice_insert:
  "array_splice start 0 items xs =
     take (nat (if start < 0 then int (length xs) + start else start)) xs @ items @
     drop (nat (if start < 0 then int (length xs) + start else start)) xs"
  by (auto simp add: array_splice_def Let_def max_def min_def)

lemma length_displayed [simp]: "length (displayed ws) = length ws"
  by (simp add: displayed_def)

lemma displayed_append: "displayed (xs @ ys) = displayed xs @ displayed ys"
  by (simp add: displayed_def)

lemma displayed_take: "displayed (take k xs) = take k (displayed xs)"
  by (simp add: displayed_def take_map)

lemma displayed_drop: "displayed (drop k xs) = drop k (displayed xs)"
  by (simp add: displayed_def drop_map)

lemma waypoints_drawend:
  "waypoints (drawend d cs st) =
     (case insertPosition d of
        None \<Rightarrow> waypoints st @ formattedCoords cs
      | Some position \<Rightarrow>
          (if position = ''before'' then
             array_splice (toNumber (seen_selectedWaypoint d)) 0
               (formattedCoords cs) (seen_waypoints d)
           else if position = ''after'' then
             array_splice (toNumber (seen_selectedWaypoint d) + 1) 0
               (formattedCoords cs) (seen_waypoints d)
           else seen_waypoints d))"
  by (simp add: drawend_def Let_def split: option.split)

text \<open>
  The Enter key in a drawing mode with a current Draw: the handler takes the Draw off the
  map and throws, whatever was sketched; waypoints, \<open>drawingMode\<close> and \<open>drawRef\<close> stay
  as they were.
\<close>

lemma enter_with_draw_throws:
  assumes "map_set st" and "drawingMode st \<noteq> None" and "drawRef st = Some d"
  shows "handleKeyDown ''Enter'' fs st =
           Thrown TypeError (st\<lparr>interactions := remove1 d (interactions st)\<rparr>)"
  using assms by (simp add: handleKeyDown_def overlay_after_removal_def)


text \<open>
  The splice of lines 61 to 69 for the index and the sequence the listener holds.
\<close>

lemma splice_at_held_index:
  assumes "seen_selectedWaypoint d = Some i" and "i < length (seen_waypoints d)"
    and "insertPosition d = Some side" and "side = ''before'' \<or> side = ''after''"
    and "off = (if side = ''before'' then i else i + 1)"
  shows "waypoints (drawend d cs st) =
           take off (seen_waypoints d) @ formattedCoords cs @ drop off (seen_waypoints d)"
proof (cases "side = ''before''")
  case True
  with assms show ?thesis
    by (simp add: waypoints_drawend toNumber_def array_splice_insert)
next
  case False
  with assms have "side = ''after''" by simp
  moreover have "nat (int i + 1) = i + 1" by simp
  ultimately show ?thesis using assms
    by (simp add: waypoints_drawend toNumber_def array_splice_insert)
qed

section \<open>Claims\<close>

subsection \<open>C1: labels\<close>

text \<open>
  C1, as the code has it: the end-to-end insertion of the two points \<open>(9,9), (8,8)\<close> before
  index 1 of the three-point route is displayed as
  \<open>WP(00)@(9,9), WP(01)@(8,8), WP(00)@(0,0), WP(01)@(1,1), WP(02)@(2,2)\<close>, which is not the
  sequence \<open>WP(00)@(0,0), WP(01)@(9,9), WP(02)@(8,8), WP(03)@(1,1), WP(04)@(2,2)\<close> of the
  claim: the labels shown are the stored ones, not ordinals of the position in the list.
\<close>

theorem insertion_scenario_display:
  "displayed (waypoints inserted) =
     [(''WP(00)'', (9, 9)), (''WP(01)'', (8, 8)), (''WP(00)'', (0, 0)),
      (''WP(01)'', (1, 1)), (''WP(02)'', (2, 2))] \<and>
   displayed (waypoints inserted) \<noteq>
     [(''WP(00)'', (0, 0)), (''WP(01)'', (9, 9)), (''WP(02)'', (8, 8)),
      (''WP(03)'', (1, 1)), (''WP(04)'', (2, 2))]"
  by (simp add: model_defs inserted_def insert_draw_def inserting_def route3_def line_draw_def begun_def)

text \<open>
  C1, amended: a label is stored on the waypoint when the waypoint is created, as the
  zero-padded ordinal of the vertex within its own gesture, and the list shows the stored
  label. When a gesture ends, the listener builds the new sequence on a sequence \<open>old\<close>:
  the current waypoints when the Draw has no insert position, and the waypoints captured
  when the Draw was created when it inserts before or after. The elements of \<open>old\<close> are
  displayed exactly as before, and the new block is displayed as \<open>WP(00), WP(01), ...\<close>
  with the gesture's coordinates in order, at some offset \<open>k\<close> of \<open>old\<close>. Nothing is
  relabelled by position.
\<close>

theorem stored_labels_displayed:
  assumes "insertPosition d \<in> {None, Some ''before'', Some ''after''}"
    and "old = (if insertPosition d = None then waypoints st else seen_waypoints d)"
  shows "\<exists>k\<le>length old.
           displayed (waypoints (drawend d cs st)) =
             take k (displayed old) @ zip (map wp_label [0..<length cs]) cs @
             drop k (displayed old)"
proof (cases "insertPosition d")
  case None
  with assms have "displayed (waypoints (drawend d cs st)) =
      take (length old) (displayed old) @ zip (map wp_label [0..<length cs]) cs @
      drop (length old) (displayed old)"
    by (simp add: waypoints_drawend displayed_append displayed_formattedCoords)
  then show ?thesis by blast
next
  case (Some position)
  with assms(1) have pos: "position = ''before'' \<or> position = ''after''" by auto
  from Some assms(2) have old: "old = seen_waypoints d" by simp
  define start where
    "start = (if position = ''before'' then toNumber (seen_selectedWaypoint d)
              else toNumber (seen_selectedWaypoint d) + 1)"
  define k where
    "k = min (length old) (nat (if start < 0 then int (length old) + start else start))"
  from Some pos have "waypoints (drawend d cs st) = array_splice start 0 (formattedCoords cs) old"
    by (auto simp add: waypoints_drawend old start_def)
  also have "\<dots> = take k old @ formattedCoords cs @ drop k old"
    by (simp add: array_splice_insert k_def min_def)
  finally have "displayed (waypoints (drawend d cs st)) =
      take k (displayed old) @ zip (map wp_label [0..<length cs]) cs @ drop k (displayed old)"
    by (simp add: displayed_append displayed_take displayed_drop displayed_formattedCoords)
  moreover have "k \<le> length old" by (simp add: k_def)
  ultimately show ?thesis by blast
qed

theorem stored_labels_displayed_witness:
  "insertPosition insert_draw \<in> {None, Some ''before'', Some ''after''} \<and>
   (\<exists>k\<le>length (waypoints route3).
      displayed (waypoints (drawend insert_draw [(9, 9), (8, 8)] inserting)) =
        take k (displayed (waypoints route3)) @
        zip (map wp_label [0..<length [(9::int, 9::int), (8, 8)]]) [(9, 9), (8, 8)] @
        drop k (displayed (waypoints route3)))"
proof -
  have a: "insertPosition insert_draw \<in> {None, Some ''before'', Some ''after''}"
    by (simp add: insert_draw_def new_draw_def)
  have b: "waypoints route3 =
      (if insertPosition insert_draw = None then waypoints inserting else seen_waypoints insert_draw)"
    by (simp add: insert_draw_def new_draw_def)
  from stored_labels_displayed [OF a b, of "[(9, 9), (8, 8)]"] a show ?thesis by simp
qed

subsection \<open>C2: the two completion paths\<close>

text \<open>
  C2 at a concrete input: in the state \<open>inserting\<close> the current Draw was begun with the
  insert position \<open>before\<close>, and the vertices \<open>(9,9), (8,8)\<close> have been sketched. The
  gesture-finished path splices the two waypoints into the route. The Enter key takes the
  Draw off the map, finds no feature and throws a TypeError: the route keeps its three
  waypoints. The two paths do not give the same sequence.
\<close>

theorem enter_throws_where_drawend_splices:
  "drawRef inserting = Some insert_draw \<and>
   insertPosition insert_draw = Some ''before'' \<and>
   map coordinates (waypoints (fire_drawend insert_draw [(9, 9), (8, 8)] inserting)) =
     [(9, 9), (8, 8), (0, 0), (1, 1), (2, 2)] \<and>
   handleKeyDown ''Enter'' [[(9, 9), (8, 8)]] inserting =
     Thrown TypeError (inserting\<lparr>interactions := [line_draw]\<rparr>) \<and>
   map coordinates (waypoints (state_of (handleKeyDown ''Enter'' [[(9, 9), (8, 8)]] inserting))) =
     [(0, 0), (1, 1), (2, 2)]"
  by (simp add: model_defs insert_draw_def inserting_def route3_def line_draw_def begun_def)

subsection \<open>C3: a second addDrawingInteraction\<close>

text \<open>
  C3, as the code has it: after the LineString button and then the Polygon button, the
  Draw of the first call is still on the map, and when its gesture ends its listener
  appends to the waypoint sequence.
\<close>

theorem first_draw_still_completes:
  "first_draw \<in> set (interactions begun_twice) \<and>
   drawRef begun_twice \<noteq> Some first_draw \<and>
   waypoints (fire_drawend first_draw [(5, 5)] begun_twice) \<noteq> waypoints begun_twice"
  by (simp add: model_defs first_draw_def begun_twice_def)

text \<open>
  C3, amended: when \<open>addDrawingInteraction\<close> is called a second time with no completion
  in between, \<open>drawingMode\<close> and \<open>drawRef\<close> name the second Draw only, so one drawing is
  recorded as current; the first Draw is a different object, stays on the map beside the
  second, and its listener still runs when its gesture ends.
\<close>

theorem second_begin_keeps_first_draw:
  assumes "map_set st"
    and "d1 = new_draw k1 p1 st"
    and "st1 = addDrawingInteraction k1 p1 st"
    and "d2 = new_draw k2 p2 st1"
    and "st2 = addDrawingInteraction k2 p2 st1"
  shows "drawingMode st2 = Some k2 \<and> drawRef st2 = Some d2 \<and> d1 \<noteq> d2 \<and>
         interactions st2 = interactions st @ [d1, d2] \<and>
         fire_drawend d1 cs st2 = drawend d1 cs st2"
proof -
  from assms have st1: "map_set st1" "interactions st1 = interactions st @ [d1]"
      "draws_created st1 = Suc (draws_created st)"
    by (simp_all add: addDrawingInteraction_def)
  from assms st1 have st2: "drawingMode st2 = Some k2" "drawRef st2 = Some d2"
      "interactions st2 = interactions st @ [d1, d2]"
    by (simp_all add: addDrawingInteraction_def)
  from assms st1 have "uid d1 \<noteq> uid d2"
    by (simp add: new_draw_def)
  then have "d1 \<noteq> d2" by auto
  moreover from st2 have "fire_drawend d1 cs st2 = drawend d1 cs st2"
    by (simp add: fire_drawend_def)
  ultimately show ?thesis using st2 by simp
qed

theorem second_begin_keeps_first_draw_witness:
  "map_set (mount initial :: (int \<times> int) app) \<and>
   drawingMode begun_twice = Some Polygon \<and>
   drawRef begun_twice =
     Some (new_draw Polygon None (addDrawingInteraction LineString None (mount initial))) \<and>
   first_draw \<noteq> new_draw Polygon None (addDrawingInteraction LineString None (mount initial)) \<and>
   interactions begun_twice =
     interactions (mount initial) @
       [first_draw, new_draw Polygon None (addDrawingInteraction LineString None (mount initial))] \<and>
   fire_drawend first_draw [(5, 5)] begun_twice = drawend first_draw [(5, 5)] begun_twice"
proof -
  have m: "map_set (mount initial :: (int \<times> int) app)"
    by (simp add: mount_def initial_def)
  from second_begin_keeps_first_draw [OF m first_draw_def refl refl begun_twice_def,
      of "[(5, 5)]"] m
  show ?thesis by simp
qed

subsection \<open>C4: where the block lands\<close>

text \<open>
  C4 at two concrete inputs. On the route of three waypoints, with nothing selected yet,
  the user picks \<open>before\<close> at the item at index 1 and the gesture ends with
  \<open>(9,9), (8,8)\<close>: the block starts at offset 0, not at offset 1. Then, in the state
  \<open>inserting\<close>, where index 1 is the selected one, the user picks \<open>after\<close> at the item at
  index 2 and the gesture ends with \<open>(7,7)\<close>: the block starts at offset 2, not at offset
  3. In both runs the listener holds the selection made before the pick, because
  \<open>onSelect\<close> calls \<open>addDrawingInteraction\<close> in the render that still has the old value.
\<close>

theorem insertion_lands_at_previous_selection:
  "selectedWaypoint route3 = None \<and>
   selectedWaypoint (onSelect 1 ''before'' route3) = Some 1 \<and>
   drawRef (onSelect 1 ''before'' route3) = Some insert_draw \<and>
   seen_selectedWaypoint insert_draw = None \<and>
   map coordinates (waypoints route3) = [(0, 0), (1, 1), (2, 2)] \<and>
   map coordinates (waypoints (fire_drawend insert_draw [(9, 9), (8, 8)]
       (onSelect 1 ''before'' route3))) =
     [(9, 9), (8, 8), (0, 0), (1, 1), (2, 2)] \<and>
   selectedWaypoint inserting_after = Some 2 \<and>
   drawRef inserting_after = Some after_draw \<and>
   seen_selectedWaypoint after_draw = Some 1 \<and>
   map coordinates (waypoints inserting_after) = [(0, 0), (1, 1), (2, 2)] \<and>
   map coordinates (waypoints (fire_drawend after_draw [(7, 7)] inserting_after)) =
     [(0, 0), (1, 1), (7, 7), (2, 2)]"
  by (simp add: model_defs insert_draw_def after_draw_def inserting_after_def inserting_def
      route3_def line_draw_def begun_def)

subsection \<open>C5: a gesture without vertices\<close>




subsection \<open>C6: an index outside the sequence\<close>




subsection \<open>C7: the Enter key before any vertex\<close>

text \<open>
  C7 at a concrete input: the LineString button has started a Draw on the mounted
  component and Enter is pressed while the overlay of the Draw holds no feature.
  \<open>handleKeyDown\<close> removes the Draw from the map and then throws a TypeError; the
  statements that clear \<open>drawingMode\<close> and \<open>drawRef\<close> are never reached.
\<close>

theorem enter_without_feature_throws:
  "drawingMode begun = Some LineString \<and> drawRef begun = Some line_draw \<and>
   handleKeyDown ''Enter'' [] begun = Thrown TypeError (begun\<lparr>interactions := []\<rparr>) \<and>
   drawingMode (state_of (handleKeyDown ''Enter'' [] begun)) = Some LineString \<and>
   drawRef (state_of (handleKeyDown ''Enter'' [] begun)) = Some line_draw"
  by (simp add: model_defs begun_def line_draw_def)

subsection \<open>C8: from coordinates to waypoints\<close>

text \<open>
  C8: the conversion of the raw vertex list of a gesture is a function of that list alone;
  its output has the length of the input and the coordinates of its i-th waypoint are the
  i-th input vertex, so that reading the coordinates back gives the input list: nothing
  is sorted, dropped or merged.
\<close>

theorem formattedCoords_keeps_vertices:
  "length (formattedCoords cs) = length cs \<and> map coordinates (formattedCoords cs) = cs"
  by (simp add: coordinates_formattedCoords)

subsection \<open>C9: the geometry of an insertion\<close>

text \<open>
  C9: whichever position string the Dropdown passes, whichever list item it belongs to and
  whatever was drawn before, the Draw that \<open>onSelect\<close> creates on a mounted component has
  the type Polygon, and \<open>drawingMode\<close> becomes Polygon.
\<close>

theorem insertion_draws_polygon:
  assumes "map_set st"
  shows "\<exists>d. drawRef (onSelect index position st) = Some d \<and>
             interactions (onSelect index position st) = interactions st @ [d] \<and>
             draw_type d = Polygon \<and> insertPosition d = Some position \<and>
             drawingMode (onSelect index position st) = Some Polygon"
  using assms by (simp add: onSelect_def addDrawingInteraction_def new_draw_def)

theorem insertion_draws_polygon_witness:
  "map_set route3 \<and> drawType route3 = Some LineString \<and>
   (\<exists>d. drawRef (onSelect 1 ''after'' route3) = Some d \<and>
        interactions (onSelect 1 ''after'' route3) = interactions route3 @ [d] \<and>
        draw_type d = Polygon \<and> insertPosition d = Some ''after'' \<and>
        drawingMode (onSelect 1 ''after'' route3) = Some Polygon)"
proof -
  have m: "map_set route3" "drawType route3 = Some LineString"
    by (simp_all add: model_defs route3_def line_draw_def begun_def)
  from insertion_draws_polygon [OF m(1), of 1 "''after''"] m show ?thesis by blast
qed

subsection \<open>C10: the sequence an insertion builds on\<close>

text \<open>
  C10: a Draw created with an insert position \<open>before\<close> or \<open>after\<close> in the state \<open>st0\<close>
  builds, when its gesture ends in any later state \<open>st\<close>, the new sequence from the
  waypoints of \<open>st0\<close> with the block spliced in; the waypoints of \<open>st\<close> do not enter the
  result, so whatever changed the sequence in between is gone. A Draw created without
  an insert position appends the block to the waypoints of the state \<open>st\<close> in which its
  gesture ends.
\<close>

theorem insertion_rebuilds_from_snapshot:
  assumes "map_set st0" and "position = ''before'' \<or> position = ''after''"
    and "d = new_draw ty (Some position) st0"
  shows "drawRef (addDrawingInteraction ty (Some position) st0) = Some d \<and>
         waypoints (drawend d cs st) =
           array_splice (toNumber (selectedWaypoint st0) + (if position = ''before'' then 0 else 1))
             0 (formattedCoords cs) (waypoints st0) \<and>
         (\<exists>k\<le>length (waypoints st0).
            waypoints (drawend d cs st) =
              take k (waypoints st0) @ formattedCoords cs @ drop k (waypoints st0)) \<and>
         waypoints (drawend (new_draw ty None st0) cs st) = waypoints st @ formattedCoords cs"
proof -
  define start where
    "start = toNumber (selectedWaypoint st0) + (if position = ''before'' then 0 else 1)"
  define k where
    "k = min (length (waypoints st0))
           (nat (if start < 0 then int (length (waypoints st0)) + start else start))"
  have W: "waypoints (drawend d cs st) =
      array_splice start 0 (formattedCoords cs) (waypoints st0)"
    using assms by (auto simp add: waypoints_drawend new_draw_def start_def)
  also have "\<dots> = take k (waypoints st0) @ formattedCoords cs @ drop k (waypoints st0)"
    by (simp add: array_splice_insert k_def min_def)
  finally have "\<exists>k\<le>length (waypoints st0).
      waypoints (drawend d cs st) =
        take k (waypoints st0) @ formattedCoords cs @ drop k (waypoints st0)"
    using k_def by (metis min.cobounded1)
  moreover have "drawRef (addDrawingInteraction ty (Some position) st0) = Some d"
    using assms by (simp add: addDrawingInteraction_def)
  moreover have "waypoints (drawend (new_draw ty None st0) cs st) = waypoints st @ formattedCoords cs"
    by (simp add: waypoints_drawend new_draw_def)
  ultimately show ?thesis using W by (simp add: start_def)
qed

theorem insertion_rebuilds_from_snapshot_witness:
  "map_set route3 \<and> insert_draw = new_draw Polygon (Some ''before'') route3 \<and>
   map coordinates (waypoints route3) = [(0, 0), (1, 1), (2, 2)] \<and>
   map coordinates (waypoints inserted) = [(9, 9), (8, 8), (0, 0), (1, 1), (2, 2)] \<and>
   map coordinates (waypoints (drawend insert_draw [(7, 7)] inserted)) =
     [(7, 7), (0, 0), (1, 1), (2, 2)] \<and>
   map coordinates (waypoints (drawend line_draw [(7, 7)] inserted)) =
     [(9, 9), (8, 8), (0, 0), (1, 1), (2, 2), (7, 7)]"
proof -
  have m: "map_set route3" "''before'' = ''before'' \<or> ''before'' = ''after''"
    by (simp_all add: model_defs route3_def line_draw_def begun_def)
  have w: "map coordinates (waypoints route3) = [(0, 0), (1, 1), (2, 2)]"
      "map coordinates (waypoints inserted) = [(9, 9), (8, 8), (0, 0), (1, 1), (2, 2)]"
      "selectedWaypoint route3 = None"
      "map coordinates (waypoints (drawend line_draw [(7, 7)] inserted)) =
         [(9, 9), (8, 8), (0, 0), (1, 1), (2, 2), (7, 7)]"
    by (simp_all add: model_defs inserted_def insert_draw_def inserting_def route3_def line_draw_def begun_def)
  from insertion_rebuilds_from_snapshot [OF m insert_draw_def, of "[(7, 7)]" inserted]
  have "waypoints (drawend insert_draw [(7, 7)] inserted) =
      array_splice (toNumber (selectedWaypoint route3) + 0) 0 (formattedCoords [(7, 7)])
        (waypoints route3)"
    by simp
  then have "map coordinates (waypoints (drawend insert_draw [(7, 7)] inserted)) =
      [(7, 7)] @ map coordinates (waypoints route3)"
    by (simp add: w(3) toNumber_def array_splice_insert coordinates_formattedCoords)
  with w m insert_draw_def show ?thesis by simp
qed

end
